theory Spec2Isabelle
  imports Main
begin

text \<open>
  A shallow embedding of \<open>backend/main.py\<close>: the query interpreter
  (\<open>extract_location\<close>, \<open>extract_search_params\<close>), the summary
  (\<open>generate_search_summary\<close>), the loop of \<open>search_zillow\<close> that turns provider records
  into listings, the enrichment (\<open>generate_location_overview\<close>) and the request handler
  (\<open>search_properties\<close>). An exception is a value \<open>Inl e\<close>; what the network returns is
  an input. The definitions come first, the facts proved about them follow.
\<close>

section \<open>Text: Python strings over the code points U+0000 .. U+00FF\<close>

text \<open>
  A Python \<open>str\<close> is modelled as a \<open>string\<close>, each \<open>char\<close> read as the code point of
  the same number. Queries with code points above U+00FF are outside the model. The
  character predicates below are Python's on that range.
\<close>

definition code :: "char \<Rightarrow> int" where
  "code c = of_char c"

text \<open>\<open>str.isspace\<close>, which is also what \<open>str.split()\<close>, \<open>str.strip()\<close> and the regular
  expression class \<open>\s\<close> use: TAB..CR, FS..US, SPACE, NEL and NBSP.\<close>

definition isspace :: "char \<Rightarrow> bool" where
  "isspace c = (let n = code c in
     (9 \<le> n \<and> n \<le> 13) \<or> (28 \<le> n \<and> n \<le> 32) \<or> n = 133 \<or> n = 160)"

text \<open>\<open>str.isupper\<close> on one character: A..Z and the upper-case letters of Latin-1
  (U+00C0..U+00DE without the multiplication sign U+00D7).\<close>

definition isupper :: "char \<Rightarrow> bool" where
  "isupper c = (let n = code c in
     (65 \<le> n \<and> n \<le> 90) \<or> (192 \<le> n \<and> n \<le> 222 \<and> n \<noteq> 215))"

definition lower_char :: "char \<Rightarrow> char" where
  "lower_char c = (if isupper c then char_of (code c + 32) else c)"

definition lower :: "string \<Rightarrow> string" where
  "lower s = map lower_char s"

definition isalpha_ascii :: "char \<Rightarrow> bool" where
  "isalpha_ascii c = (let n = code c in (65 \<le> n \<and> n \<le> 90) \<or> (97 \<le> n \<and> n \<le> 122))"

definition isdigit :: "char \<Rightarrow> bool" where
  "isdigit c = (let n = code c in 48 \<le> n \<and> n \<le> 57)"

definition strip :: "string \<Rightarrow> string" where
  "strip s = rev (dropWhile isspace (rev (dropWhile isspace s)))"

text \<open>\<open>str.split()\<close> without argument: the maximal runs of non-space characters.\<close>

fun split_aux :: "string \<Rightarrow> string \<Rightarrow> string list" where
  "split_aux [] cur = (if cur = [] then [] else [cur])"
| "split_aux (c # cs) cur =
     (if isspace c then (if cur = [] then split_aux cs [] else cur # split_aux cs [])
      else split_aux cs (cur @ [c]))"

definition split :: "string \<Rightarrow> string list" where
  "split s = split_aux s []"

text \<open>\<open>sub in s\<close> on strings.\<close>

fun starts_with :: "string \<Rightarrow> string \<Rightarrow> bool" where
  "starts_with [] s = True"
| "starts_with (p # ps) [] = False"
| "starts_with (p # ps) (c # cs) = (p = c \<and> starts_with ps cs)"

fun contains :: "string \<Rightarrow> string \<Rightarrow> bool" where
  "contains sub [] = (sub = [])"
| "contains sub (c # cs) = (starts_with sub (c # cs) \<or> contains sub cs)"

section \<open>The regular expressions of the source\<close>

text \<open>
  Every pattern of \<open>main.py\<close> is a sequence of single-character atoms, each taken once,
  optionally (\<open>?\<close>), or repeated greedily (\<open>*\<close>, \<open>+\<close>), with one capture group. An item is
  an atom, its quantifier, and whether it lies inside the group. \<open>match_here\<close> is the
  backtracking matcher of \<open>re\<close> anchored at the start of its input: a greedy item takes
  as much as it can and gives characters back when the rest fails. It returns the text
  of group 1.
\<close>

datatype atom =
    Lit char      \<comment> \<open>a literal character\<close>
  | LitCI char    \<comment> \<open>a literal lower-case letter under \<open>re.IGNORECASE\<close>\<close>
  | Digit         \<comment> \<open>\<open>\d\<close>\<close>
  | Space         \<comment> \<open>\<open>\s\<close>\<close>
  | LocClass      \<comment> \<open>\<open>[A-Za-z\s,]\<close>\<close>

datatype quant = One | Opt | Star | Plus

type_synonym item = "atom \<times> quant \<times> bool"

fun atom_ok :: "atom \<Rightarrow> char \<Rightarrow> bool" where
  "atom_ok (Lit l) c = (c = l)"
| "atom_ok (LitCI l) c = (lower_char c = l)"
| "atom_ok Digit c = isdigit c"
| "atom_ok Space c = isspace c"
| "atom_ok LocClass c = (isalpha_ascii c \<or> isspace c \<or> c = CHR '','')"

definition grp :: "bool \<Rightarrow> string \<Rightarrow> char \<Rightarrow> string" where
  "grp g acc c = (if g then acc @ [c] else acc)"

fun match_here :: "item list \<Rightarrow> string \<Rightarrow> string \<Rightarrow> string option" where
  "match_here [] s acc = Some acc"
| "match_here ((a, One, g) # r) [] acc = None"
| "match_here ((a, One, g) # r) (c # cs) acc =
     (if atom_ok a c then match_here r cs (grp g acc c) else None)"
| "match_here ((a, Opt, g) # r) [] acc = match_here r [] acc"
| "match_here ((a, Opt, g) # r) (c # cs) acc =
     (if atom_ok a c then
        (case match_here r cs (grp g acc c) of
           Some m \<Rightarrow> Some m
         | None \<Rightarrow> match_here r (c # cs) acc)
      else match_here r (c # cs) acc)"
| "match_here ((a, Star, g) # r) [] acc = match_here r [] acc"
| "match_here ((a, Star, g) # r) (c # cs) acc =
     (if atom_ok a c then
        (case match_here ((a, Star, g) # r) cs (grp g acc c) of
           Some m \<Rightarrow> Some m
         | None \<Rightarrow> match_here r (c # cs) acc)
      else match_here r (c # cs) acc)"
| "match_here ((a, Plus, g) # r) [] acc = None"
| "match_here ((a, Plus, g) # r) (c # cs) acc =
     (if atom_ok a c then match_here ((a, Star, g) # r) cs (grp g acc c) else None)"

text \<open>\<open>re.search\<close>: the match at the leftmost position that has one; the value is
  \<open>match.group(1)\<close>, and \<open>None\<close> when there is no match.\<close>

fun re_search :: "item list \<Rightarrow> string \<Rightarrow> string option" where
  "re_search p [] = match_here p [] []"
| "re_search p (c # cs) =
     (case match_here p (c # cs) [] of
        Some m \<Rightarrow> Some m
      | None \<Rightarrow> re_search p cs)"

definition lit :: "string \<Rightarrow> item list" where
  "lit s = map (\<lambda>c. (Lit c, One, False)) s"

definition lit_ci :: "string \<Rightarrow> item list" where
  "lit_ci s = map (\<lambda>c. (LitCI c, One, False)) s"

section \<open>Errors\<close>

datatype error =
    HTTPException int string
  | IndexError
  | KeyError
  | ValueError
  | OverflowError
  | TypeError
  | AttributeError
  | ValidationError

section \<open>The query interpreter: \<open>extract_location\<close>\<close>

text \<open>\<open>in ([A-Za-z\s,]+)\<close>, \<open>at ([A-Za-z\s,]+)\<close>, \<open>near ([A-Za-z\s,]+)\<close>, searched with
  \<open>re.IGNORECASE\<close>.\<close>

definition location_patterns :: "item list list" where
  "location_patterns =
     [lit_ci ''in '' @ [(LocClass, Plus, True)],
      lit_ci ''at '' @ [(LocClass, Plus, True)],
      lit_ci ''near '' @ [(LocClass, Plus, True)]]"

text \<open>The state suffix for the known cities, added when the location has no comma.\<close>

definition add_state :: "string \<Rightarrow> string" where
  "add_state location =
     (if CHR '','' \<notin> set location then
        (let location_lower = lower location in
         if location_lower = ''boston'' then location @ '', MA''
         else if location_lower \<in> set [''new york'', ''nyc''] then location @ '', NY''
         else if location_lower = ''miami'' then location @ '', FL''
         else if location_lower = ''chicago'' then location @ '', IL''
         else if location_lower = ''los angeles'' then location @ '', CA''
         else if location_lower \<in> set [''princeville'', ''kapaa'', ''poipu'', ''kauai'']
           then location @ '', HI''
         else location)
      else location)"

text \<open>The loop over the patterns: the first pattern that matches decides.\<close>

fun pattern_location :: "item list list \<Rightarrow> string \<Rightarrow> string option" where
  "pattern_location [] query = None"
| "pattern_location (pattern # rest) query =
     (case re_search pattern query of
        Some g \<Rightarrow> Some (add_state (strip g))
      | None \<Rightarrow> pattern_location rest query)"

definition missing_location :: error where
  "missing_location = HTTPException 400
     ''Please specify a location in your search query (e.g., 'in Boston' or 'near Chicago')''"

definition extract_location :: "string \<Rightarrow> error + string" where
  "extract_location query =
     (case pattern_location location_patterns query of
        Some location \<Rightarrow> Inr location
      | None \<Rightarrow>
          (case split query of
             [] \<Rightarrow> Inl missing_location
           | w # ws \<Rightarrow>
               (case w of
                  [] \<Rightarrow> Inl IndexError
                | c # cs \<Rightarrow> if isupper c then Inr w else Inl missing_location)))"

section \<open>Numbers: \<open>float\<close>, \<open>int\<close> and \<open>str\<close>\<close>

text \<open>
  A Python \<open>float\<close> is an IEEE 754 binary64 number. A finite one is kept exactly, as a
  sign, a mantissa \<open>m\<close> and an exponent \<open>e\<close> standing for \<open>m * 2 ^ e\<close>; the two
  infinities and not-a-number are values of their own. Reading a decimal string and
  multiplying round to the nearest double, ties to the even mantissa, as CPython does.
\<close>

datatype pyfloat =
    Fin bool int int    \<comment> \<open>negative?, mantissa (not negative), binary exponent\<close>
  | Inf bool            \<comment> \<open>negative?\<close>
  | NaN

text \<open>The number of binary digits of a positive whole number.\<close>

function bitlen :: "int \<Rightarrow> int" where
  "bitlen n = (if n \<le> 0 then 0 else 1 + bitlen (n div 2))"
  by pat_completeness auto
termination
  by (relation "measure nat") auto

declare bitlen.simps [simp del]

text \<open>The integer part of the binary logarithm of \<open>p / q\<close>, for positive \<open>p\<close> and \<open>q\<close>.\<close>

definition floor_log2 :: "int \<Rightarrow> int \<Rightarrow> int" where
  "floor_log2 p q =
     (let d = bitlen p - bitlen q in
      if (if 0 \<le> d then q * 2 ^ nat d \<le> p else q \<le> p * 2 ^ nat (- d)) then d else d - 1)"

text \<open>The double nearest to \<open>p / q\<close> (\<open>q\<close> positive): 53 bits of mantissa, exponent not
  below -1074 (subnormals), and \<open>None\<close> when the rounded value is beyond the largest
  double.\<close>

definition round_ratio :: "int \<Rightarrow> int \<Rightarrow> (int \<times> int) option" where
  "round_ratio p q =
     (if p \<le> 0 then Some (0, 0)
      else
        let e = max (floor_log2 p q - 52) (- 1074);
            num = (if 0 \<le> e then p else p * 2 ^ nat (- e));
            den = (if 0 \<le> e then q * 2 ^ nat e else q);
            m0 = num div den;
            r = num mod den;
            m = (if den < 2 * r \<or> (2 * r = den \<and> odd m0) then m0 + 1 else m0)
        in if 0 \<le> e \<and> 2 ^ 1024 \<le> m * 2 ^ nat e then None else Some (m, e))"

definition make_float :: "bool \<Rightarrow> int \<Rightarrow> int \<Rightarrow> pyfloat" where
  "make_float neg p q =
     (case round_ratio p q of None \<Rightarrow> Inf neg | Some (m, e) \<Rightarrow> Fin neg m e)"

text \<open>\<open>x * 1000000\<close> on a float.\<close>

fun times_million :: "pyfloat \<Rightarrow> pyfloat" where
  "times_million (Fin neg m e) =
     (if 0 \<le> e then make_float neg (m * 1000000 * 2 ^ nat e) 1
      else make_float neg (m * 1000000) (2 ^ nat (- e)))"
| "times_million (Inf neg) = Inf neg"
| "times_million NaN = NaN"

text \<open>\<open>int(x)\<close> on a float: truncation towards zero; the infinities and not-a-number
  raise.\<close>

fun int_of_float :: "pyfloat \<Rightarrow> error + int" where
  "int_of_float (Fin neg m e) =
     (let a = (if 0 \<le> e then m * 2 ^ nat e else m div 2 ^ nat (- e))
      in Inr (if neg then - a else a))"
| "int_of_float (Inf neg) = Inl OverflowError"
| "int_of_float NaN = Inl ValueError"

text \<open>\<open>float(n)\<close> on an \<open>int\<close>: the nearest double, \<open>OverflowError\<close> beyond the range.\<close>

definition float_of_int :: "int \<Rightarrow> error + pyfloat" where
  "float_of_int n =
     (case round_ratio \<bar>n\<bar> 1 of
        None \<Rightarrow> Inl OverflowError
      | Some (m, e) \<Rightarrow> Inr (Fin (n < 0) m e))"

subsection \<open>\<open>float(s)\<close> on a string\<close>

definition digit_val :: "char \<Rightarrow> int" where
  "digit_val c = code c - 48"

definition int_of_digits :: "string \<Rightarrow> int" where
  "int_of_digits ds = foldl (\<lambda>a c. 10 * a + digit_val c) 0 ds"

text \<open>Underscores are allowed between two digits only; they are removed.\<close>

fun drop_underscores :: "char \<Rightarrow> string \<Rightarrow> string option" where
  "drop_underscores prev [] = (if prev = CHR ''_'' then None else Some [])"
| "drop_underscores prev (c # cs) =
     (if c = CHR ''_'' then
        (if isdigit prev then drop_underscores c cs else None)
      else if prev = CHR ''_'' \<and> \<not> isdigit c then None
      else map_option ((#) c) (drop_underscores c cs))"

text \<open>The white space that \<open>float\<close> strips after the string was made ASCII: TAB..CR and
  SPACE.\<close>

definition isspace_c :: "char \<Rightarrow> bool" where
  "isspace_c c = (let n = code c in (9 \<le> n \<and> n \<le> 13) \<or> n = 32)"

definition strip_c :: "string \<Rightarrow> string" where
  "strip_c s = rev (dropWhile isspace_c (rev (dropWhile isspace_c s)))"

definition split_sign :: "string \<Rightarrow> bool \<times> string" where
  "split_sign s =
     (case s of
        [] \<Rightarrow> (False, [])
      | c # cs \<Rightarrow> if c = CHR ''-'' then (True, cs) else if c = CHR ''+'' then (False, cs)
                 else (False, s))"

text \<open>An exponent part \<open>e\<close>, sign, digits at the head of \<open>s\<close>: its value and the rest.
  Without a digit there is no exponent part.\<close>

definition split_exponent :: "string \<Rightarrow> int \<times> string" where
  "split_exponent s =
     (case s of
        [] \<Rightarrow> (0, s)
      | c # cs \<Rightarrow>
          if c = CHR ''e'' \<or> c = CHR ''E'' then
            (let (neg, t) = split_sign cs;
                 ds = takeWhile isdigit t
             in if ds = [] then (0, s)
                else (if neg then - int_of_digits ds else int_of_digits ds,
                      dropWhile isdigit t))
          else (0, s))"

definition parse_number :: "string \<Rightarrow> error + pyfloat" where
  "parse_number s =
     (let (neg, t) = split_sign s in
      if lower t = ''inf'' \<or> lower t = ''infinity'' then Inr (Inf neg)
      else if lower t = ''nan'' then Inr NaN
      else
        let ip = takeWhile isdigit t;
            r1 = dropWhile isdigit t;
            fp = (case r1 of [] \<Rightarrow> [] | c # cs \<Rightarrow>
                    if c = CHR ''.'' then takeWhile isdigit cs else []);
            r2 = (case r1 of [] \<Rightarrow> [] | c # cs \<Rightarrow>
                    if c = CHR ''.'' then dropWhile isdigit cs else r1);
            (ex, r3) = split_exponent r2;
            n = int_of_digits (ip @ fp);
            k = ex - int (length fp)
        in if ip @ fp = [] \<or> r3 \<noteq> [] then Inl ValueError
           else if 0 \<le> k then Inr (make_float neg (n * 10 ^ nat k) 1)
           else Inr (make_float neg n (10 ^ nat (- k))))"

definition py_float :: "string \<Rightarrow> error + pyfloat" where
  "py_float s =
     (if \<exists>c \<in> set s. 127 < code c \<and> \<not> isspace c then Inl ValueError
      else
        case drop_underscores (CHR 0x00) (map (\<lambda>c. if 127 < code c then CHR '' '' else c) s) of
          None \<Rightarrow> Inl ValueError
        | Some t \<Rightarrow> parse_number (strip_c t))"

subsection \<open>\<open>str(n)\<close> and \<open>format(n, ',')\<close> on an \<open>int\<close>\<close>

definition digit_char :: "int \<Rightarrow> char" where
  "digit_char d = char_of (48 + d)"

text \<open>The decimal digits of a whole number that is not negative.\<close>

function digits_of :: "int \<Rightarrow> string" where
  "digits_of n =
     (if n < 10 then [digit_char n] else digits_of (n div 10) @ [digit_char (n mod 10)])"
  by pat_completeness auto
termination
  by (relation "measure nat") auto

declare digits_of.simps [simp del]

definition str_int :: "int \<Rightarrow> string" where
  "str_int n = (if n < 0 then CHR ''-'' # digits_of (- n) else digits_of n)"

fun group_thousands :: "string \<Rightarrow> string" where
  "group_thousands (a # b # c # d # r) = a # b # c # CHR '','' # group_thousands (d # r)"
| "group_thousands s = s"

definition format_commas :: "int \<Rightarrow> string" where
  "format_commas n =
     (let body = rev (group_thousands (rev (digits_of \<bar>n\<bar>)))
      in if n < 0 then CHR ''-'' # body else body)"

section \<open>The query interpreter: \<open>extract_search_params\<close>\<close>

text \<open>The criteria dictionary. The prices are kept as the code keeps them: \<open>None\<close> or the
  decimal text of a whole number.\<close>

record criteria =
  location :: "string option"
  min_price :: "string option"
  max_price :: "string option"
  property_type :: string

text \<open>The \<open>if\<close>/\<open>elif\<close> chain on the lower-cased query; the default stays
  \<open>SINGLE_FAMILY\<close>.\<close>

definition extract_property_type :: "string \<Rightarrow> string" where
  "extract_property_type query_lower =
     (if contains ''land'' query_lower \<or> contains ''lot'' query_lower then ''LAND''
      else if contains ''condo'' query_lower then ''CONDO''
      else if contains ''townhouse'' query_lower \<or> contains ''town house'' query_lower
        then ''TOWNHOUSE''
      else if contains ''multi'' query_lower \<or> contains ''multi-family'' query_lower
        then ''MULTI_FAMILY''
      else ''SINGLE_FAMILY'')"

text \<open>The two converters: \<open>lambda x: float(x) * 1000000\<close> and
  \<open>lambda x: float(x.replace(',', ''))\<close>.\<close>

definition conv_million :: "string \<Rightarrow> error + pyfloat" where
  "conv_million x = (case py_float x of Inl e \<Rightarrow> Inl e | Inr f \<Rightarrow> Inr (times_million f))"

definition conv_plain :: "string \<Rightarrow> error + pyfloat" where
  "conv_plain x = py_float (filter (\<lambda>c. c \<noteq> CHR '','') x)"

text \<open>The group \<open>(\d+\.?\d*)\<close> and the group \<open>(\d+,?\d*)\<close>.\<close>

definition group_dot :: "item list" where
  "group_dot = [(Digit, Plus, True), (Lit (CHR ''.''), Opt, True), (Digit, Star, True)]"

definition group_comma :: "item list" where
  "group_comma = [(Digit, Plus, True), (Lit (CHR '',''), Opt, True), (Digit, Star, True)]"

definition opt_space_dollar :: "item list" where
  "opt_space_dollar = [(Lit (CHR '' ''), Opt, False), (Lit (CHR ''$''), Opt, False)]"

definition spaces_million :: "item list" where
  "spaces_million = (Space, Star, False) # lit ''million''"

text \<open>The six price patterns with their converters, in the order of the source.\<close>

definition price_patterns :: "(item list \<times> (string \<Rightarrow> error + pyfloat)) list" where
  "price_patterns =
     [(lit ''under'' @ opt_space_dollar @ group_dot @ spaces_million, conv_million),
      (lit ''under'' @ opt_space_dollar @ group_comma, conv_plain),
      (lit ''less than'' @ opt_space_dollar @ group_dot @ spaces_million, conv_million),
      (lit ''less than'' @ opt_space_dollar @ group_comma, conv_plain),
      ((Lit (CHR ''$''), Opt, False) # group_dot @ spaces_million, conv_million),
      ((Lit (CHR ''$''), Opt, False) # group_comma, conv_plain)]"

text \<open>One round of the loop body: the pattern has to match, and the conversion
  \<open>str(int(converter(match.group(1))))\<close> has to go through; a match whose conversion
  raises is skipped by the bare \<open>except\<close>.\<close>

definition try_pattern ::
  "item list \<times> (string \<Rightarrow> error + pyfloat) \<Rightarrow> string \<Rightarrow> string option" where
  "try_pattern pc query_lower =
     (case re_search (fst pc) query_lower of
        None \<Rightarrow> None
      | Some g \<Rightarrow>
          (case snd pc g of
             Inl e \<Rightarrow> None
           | Inr price \<Rightarrow>
               (case int_of_float price of
                  Inl e \<Rightarrow> None
                | Inr n \<Rightarrow> Some (str_int n))))"

fun extract_price ::
  "(item list \<times> (string \<Rightarrow> error + pyfloat)) list \<Rightarrow> string \<Rightarrow> string option" where
  "extract_price [] query_lower = None"
| "extract_price (pc # rest) query_lower =
     (case try_pattern pc query_lower of
        Some p \<Rightarrow> Some p
      | None \<Rightarrow> extract_price rest query_lower)"

definition extract_search_params :: "string \<Rightarrow> error + criteria" where
  "extract_search_params query =
     (let query_lower = lower query in
      case extract_location query of
        Inl e \<Rightarrow> Inl e
      | Inr loc \<Rightarrow>
          Inr \<lparr> location = Some loc,
                min_price = None,
                max_price = extract_price price_patterns query_lower,
                property_type = extract_property_type query_lower \<rparr>)"

section \<open>The summary: \<open>generate_search_summary\<close>\<close>

text \<open>Python's truth test on a value that is \<open>None\<close> or a string.\<close>

definition truthy :: "string option \<Rightarrow> bool" where
  "truthy v = (case v of None \<Rightarrow> False | Some s \<Rightarrow> s \<noteq> [])"

text \<open>What an f-string writes for it.\<close>

definition str_opt :: "string option \<Rightarrow> string" where
  "str_opt v = (case v of None \<Rightarrow> ''None'' | Some s \<Rightarrow> s)"

definition property_type_display :: "(string \<times> string) list" where
  "property_type_display =
     [(''SINGLE_FAMILY'', ''single-family homes''),
      (''CONDO'', ''condominiums''),
      (''TOWNHOUSE'', ''townhouses''),
      (''MULTI_FAMILY'', ''multi-family homes''),
      (''LAND'', ''land'')]"

text \<open>\<open>property_type_display.get(t, "properties")\<close>.\<close>

definition display_name :: "string \<Rightarrow> string" where
  "display_name t = (case map_of property_type_display t of None \<Rightarrow> ''properties'' | Some d \<Rightarrow> d)"

text \<open>\<open>int(float(p.replace("$", "").replace(",", "")))\<close>.\<close>

definition price_number :: "string \<Rightarrow> error + int" where
  "price_number p =
     (case py_float (filter (\<lambda>c. c \<noteq> CHR '','') (filter (\<lambda>c. c \<noteq> CHR ''$'') p)) of
        Inl e \<Rightarrow> Inl e
      | Inr f \<Rightarrow> int_of_float f)"

text \<open>\<open>sep.join(parts)\<close>.\<close>

fun join :: "string \<Rightarrow> string list \<Rightarrow> string" where
  "join sep [] = []"
| "join sep [x] = x"
| "join sep (x # y # ys) = x @ sep @ join sep (y # ys)"

text \<open>The price part appended to \<open>summary_parts\<close>, if any.\<close>

definition price_parts :: "criteria \<Rightarrow> error + string list" where
  "price_parts sc =
     (if truthy (min_price sc) \<and> truthy (max_price sc) then
        (case price_number (the (min_price sc)) of
           Inl e \<Rightarrow> Inl e
         | Inr lo \<Rightarrow>
             (case price_number (the (max_price sc)) of
                Inl e \<Rightarrow> Inl e
              | Inr hi \<Rightarrow>
                  Inr [''priced between $'' @ format_commas lo @ '' and $'' @ format_commas hi]))
      else if truthy (min_price sc) then
        (case price_number (the (min_price sc)) of
           Inl e \<Rightarrow> Inl e
         | Inr lo \<Rightarrow> Inr [''priced above $'' @ format_commas lo])
      else if truthy (max_price sc) then
        (case price_number (the (max_price sc)) of
           Inl e \<Rightarrow> Inl e
         | Inr hi \<Rightarrow> Inr [''priced under $'' @ format_commas hi])
      else Inr [])"

definition generate_search_summary :: "criteria \<Rightarrow> error + string" where
  "generate_search_summary sc =
     (let parts0 = (if truthy (location sc)
                    then [''Looking for properties in '' @ str_opt (location sc)] else [])
      in case (if property_type sc \<noteq> [] then
                 (case parts0 of
                    [] \<Rightarrow> Inl IndexError
                  | p # ps \<Rightarrow>
                      Inr ((''Looking for '' @ display_name (property_type sc) @ '' in ''
                            @ str_opt (location sc)) # ps))
               else Inr parts0) of
           Inl e \<Rightarrow> Inl e
         | Inr parts1 \<Rightarrow>
             (case price_parts sc of
                Inl e \<Rightarrow> Inl e
              | Inr pp \<Rightarrow> Inr (join '' '' (parts1 @ pp))))"

section \<open>Provider records\<close>

text \<open>
  What \<open>response.json()\<close> returns: \<open>None\<close>, a \<open>bool\<close>, an \<open>int\<close>, a \<open>float\<close>, a \<open>str\<close>, a
  \<open>list\<close>, or a \<open>dict\<close> with string keys, given as the list of its items (the first
  item of a key is its value).
\<close>

datatype json =
    JNull
  | JBool bool
  | JInt int
  | JFloat pyfloat
  | JStr string
  | JList "json list"
  | JObj "(string \<times> json) list"

text \<open>
  Two things the source leaves to its libraries are parameters of the model: the
  text that \<open>str\<close> gives a \<open>float\<close>, a \<open>list\<close> or a \<open>dict\<close>, and whether \<open>pydantic\<close> turns a
  number given for a \<open>str\<close> field into its text (version 1) or rejects it (version 2).
\<close>

record env =
  text_of :: "json \<Rightarrow> string"
  coerce_numbers :: bool

text \<open>\<open>str(v)\<close>, which is also what an f-string writes for \<open>v\<close>.\<close>

definition py_str :: "env \<Rightarrow> json \<Rightarrow> string" where
  "py_str E v =
     (case v of
        JNull \<Rightarrow> ''None''
      | JBool b \<Rightarrow> (if b then ''True'' else ''False'')
      | JInt n \<Rightarrow> str_int n
      | JStr s \<Rightarrow> s
      | _ \<Rightarrow> text_of E v)"

text \<open>Python's truth test.\<close>

definition is_true :: "json \<Rightarrow> bool" where
  "is_true v =
     (case v of
        JNull \<Rightarrow> False
      | JBool b \<Rightarrow> b
      | JInt n \<Rightarrow> n \<noteq> 0
      | JFloat f \<Rightarrow> (case f of Fin neg m e \<Rightarrow> m \<noteq> 0 | _ \<Rightarrow> True)
      | JStr s \<Rightarrow> s \<noteq> []
      | JList xs \<Rightarrow> xs \<noteq> []
      | JObj kvs \<Rightarrow> kvs \<noteq> [])"

text \<open>\<open>d.get(key, default)\<close> on the items of a dict.\<close>

definition get :: "(string \<times> json) list \<Rightarrow> string \<Rightarrow> json \<Rightarrow> json" where
  "get d key dflt = (case map_of d key of None \<Rightarrow> dflt | Some v \<Rightarrow> v)"

text \<open>\<open>float(v)\<close>.\<close>

definition float_of_json :: "json \<Rightarrow> error + pyfloat" where
  "float_of_json v =
     (case v of
        JStr s \<Rightarrow> py_float s
      | JInt n \<Rightarrow> float_of_int n
      | JBool b \<Rightarrow> Inr (Fin False (if b then 1 else 0) 0)
      | JFloat f \<Rightarrow> Inr f
      | _ \<Rightarrow> Inl TypeError)"

text \<open>\<open>v.strip()\<close>: only a string has the method.\<close>

definition strip_json :: "json \<Rightarrow> error + string" where
  "strip_json v = (case v of JStr s \<Rightarrow> Inr (strip s) | _ \<Rightarrow> Inl AttributeError)"

section \<open>The normalizer: the loop of \<open>search_zillow\<close>\<close>

text \<open>The \<open>Property\<close> model; \<open>id\<close> and \<open>location\<close> carry a prime here.\<close>

record property =
  id' :: string
  title :: string
  price :: int
  location' :: string
  summary :: string
  image_url :: string
  features :: "string list"

text \<open>The price of a record: \<open>prop.get("price", "0")\<close>, without \<open>$\<close> and \<open>,\<close> when it is a
  string, then \<open>int(float(...))\<close>.\<close>

definition record_price :: "(string \<times> json) list \<Rightarrow> error + int" where
  "record_price d =
     (let price_str = get d ''price'' (JStr ''0'');
          price_str = (case price_str of
                         JStr s \<Rightarrow> JStr (filter (\<lambda>c. c \<noteq> CHR '','') (filter (\<lambda>c. c \<noteq> CHR ''$'') s))
                       | _ \<Rightarrow> price_str)
      in case float_of_json price_str of
           Inl e \<Rightarrow> Inl e
         | Inr f \<Rightarrow> int_of_float f)"

text \<open>One \<open>if prop.get(key): features.append(f"{prop[key]} label")\<close>.\<close>

definition feature :: "env \<Rightarrow> (string \<times> json) list \<Rightarrow> string \<Rightarrow> string \<Rightarrow> string list" where
  "feature E d key label =
     (if is_true (get d key JNull) then [py_str E (get d key JNull) @ label] else [])"

definition build_features :: "env \<Rightarrow> (string \<times> json) list \<Rightarrow> string list" where
  "build_features E d =
     feature E d ''bedrooms'' '' bedrooms''
     @ feature E d ''bathrooms'' '' bathrooms''
     @ feature E d ''livingArea'' '' sqft''"

text \<open>The three stripped parts of the address, in the order street, city, state.\<close>

definition location_parts :: "(string \<times> json) list \<Rightarrow> error + string list" where
  "location_parts d =
     (case strip_json (get d ''streetAddress'' (JStr [])) of
        Inl e \<Rightarrow> Inl e
      | Inr a \<Rightarrow>
          (case strip_json (get d ''city'' (JStr [])) of
             Inl e \<Rightarrow> Inl e
           | Inr b \<Rightarrow>
               (case strip_json (get d ''state'' (JStr [])) of
                  Inl e \<Rightarrow> Inl e
                | Inr c \<Rightarrow> Inr [a, b, c])))"

text \<open>The check of \<open>pydantic\<close> on \<open>image_url: str\<close>; the other fields are given values of
  their types.\<close>

definition validate_str :: "env \<Rightarrow> json \<Rightarrow> error + string" where
  "validate_str E v =
     (case v of
        JStr s \<Rightarrow> Inr s
      | JInt n \<Rightarrow> if coerce_numbers E then Inr (py_str E v) else Inl ValidationError
      | JFloat f \<Rightarrow> if coerce_numbers E then Inr (py_str E v) else Inl ValidationError
      | JBool b \<Rightarrow> if coerce_numbers E then Inr (py_str E v) else Inl ValidationError
      | _ \<Rightarrow> Inl ValidationError)"

text \<open>The body of the \<open>try\<close> for one element of \<open>properties_data\<close>; \<open>loc\<close> is the
  \<open>location\<close> argument of \<open>search_zillow\<close>. An element that is not a dict has no
  \<open>get\<close>.\<close>

definition process_property :: "env \<Rightarrow> json \<Rightarrow> string \<Rightarrow> error + property" where
  "process_property E prop loc =
     (case prop of
        JObj d \<Rightarrow>
          (case record_price d of
             Inl e \<Rightarrow> Inl e
           | Inr p \<Rightarrow>
               (let feats = build_features E d;
                    prop_type = get d ''propertyType'' (get d ''homeType'' (JStr ''Property''))
                in case location_parts d of
                     Inl e \<Rightarrow> Inl e
                   | Inr parts \<Rightarrow>
                       (case validate_str E (get d ''imgSrc'' (get d ''imageUrl'' (JStr []))) of
                          Inl e \<Rightarrow> Inl e
                        | Inr img \<Rightarrow>
                            Inr \<lparr> id' = py_str E (get d ''zpid'' (get d ''id'' (JStr []))),
                                  title = py_str E prop_type @ '' in ''
                                          @ py_str E (get d ''city'' (JStr loc)),
                                  price = p,
                                  location' = join '', '' (filter (\<lambda>s. s \<noteq> []) parts),
                                  summary = py_str E prop_type @ '' with ''
                                            @ py_str E (get d ''bedrooms'' (JStr ''N/A''))
                                            @ '' beds, ''
                                            @ py_str E (get d ''bathrooms'' (JStr ''N/A''))
                                            @ '' baths'',
                                  image_url = img,
                                  features = feats \<rparr>)))
      | _ \<Rightarrow> Inl AttributeError)"

text \<open>The loop: an element whose body raises is logged and skipped.\<close>

fun process_properties :: "env \<Rightarrow> json list \<Rightarrow> string \<Rightarrow> property list" where
  "process_properties E [] loc = []"
| "process_properties E (prop # rest) loc =
     (case process_property E prop loc of
        Inl e \<Rightarrow> process_properties E rest loc
      | Inr property_data \<Rightarrow> property_data # process_properties E rest loc)"

section \<open>The enrichment: \<open>generate_location_overview\<close>\<close>

text \<open>What \<open>requests.post\<close> did: it raised, or it returned a response with a status
  code and a body that \<open>response.json()\<close> parses or not.\<close>

datatype http_result =
    Raised
  | Responded int "json option"

text \<open>\<open>v[key]\<close> with a string key, and \<open>v[0]\<close>.\<close>

definition item_key :: "json \<Rightarrow> string \<Rightarrow> error + json" where
  "item_key v key =
     (case v of
        JObj d \<Rightarrow> (case map_of d key of None \<Rightarrow> Inl KeyError | Some x \<Rightarrow> Inr x)
      | _ \<Rightarrow> Inl TypeError)"

definition item_first :: "json \<Rightarrow> error + json" where
  "item_first v =
     (case v of
        JList xs \<Rightarrow> (case xs of [] \<Rightarrow> Inl IndexError | x # _ \<Rightarrow> Inr x)
      | JStr s \<Rightarrow> (case s of [] \<Rightarrow> Inl IndexError | c # _ \<Rightarrow> Inr (JStr [c]))
      | JObj d \<Rightarrow> Inl KeyError
      | _ \<Rightarrow> Inl TypeError)"

text \<open>\<open>response.json()["choices"][0]["message"]["content"]\<close>.\<close>

definition overview_content :: "json \<Rightarrow> error + json" where
  "overview_content body =
     (case item_key body ''choices'' of
        Inl e \<Rightarrow> Inl e
      | Inr cs \<Rightarrow>
          (case item_first cs of
             Inl e \<Rightarrow> Inl e
           | Inr c \<Rightarrow>
               (case item_key c ''message'' of
                  Inl e \<Rightarrow> Inl e
                | Inr m \<Rightarrow> item_key m ''content'')))"

text \<open>The value returned; \<open>JNull\<close> is \<open>None\<close>. Every exception is caught inside.\<close>

definition generate_location_overview :: "http_result \<Rightarrow> json" where
  "generate_location_overview r =
     (case r of
        Raised \<Rightarrow> JNull
      | Responded status body \<Rightarrow>
          if status = 200 then
            (case body of
               None \<Rightarrow> JNull
             | Some b \<Rightarrow> (case overview_content b of Inl e \<Rightarrow> JNull | Inr overview \<Rightarrow> overview))
          else JNull)"

section \<open>The request: \<open>search_properties\<close>\<close>

record search_response =
  results :: "property list"
  static_page_url :: "string option"
  search_summary :: string
  location_overview :: json

text \<open>What the handler raises: an \<open>HTTPException\<close> as it is, anything else as a 500 whose
  detail is a prefix and the text of the exception.\<close>

datatype failure =
    Http error
  | Wrapped int string error

definition reraise :: "string \<Rightarrow> error \<Rightarrow> failure" where
  "reraise prefix e = (case e of HTTPException st detail \<Rightarrow> Http e | _ \<Rightarrow> Wrapped 500 prefix e)"

text \<open>
  The handler, with its three collaborators as parameters: \<open>groq\<close>, what the request to
  the text generator did for a location; \<open>zillow\<close>, the outcome of \<open>search_zillow\<close> on
  the criteria; \<open>static_page\<close>, the result of \<open>generate_static_page\<close>, which returns
  \<open>None\<close> when it fails.
\<close>

definition search_properties ::
  "(string \<Rightarrow> http_result) \<Rightarrow> (criteria \<Rightarrow> error + property list)
   \<Rightarrow> (property list \<Rightarrow> string \<Rightarrow> string \<Rightarrow> string option)
   \<Rightarrow> string \<Rightarrow> failure + search_response" where
  "search_properties groq zillow static_page query =
     (case extract_search_params query of
        Inl e \<Rightarrow> Inl (reraise ''Unexpected error: '' e)
      | Inr sc \<Rightarrow>
          if \<not> truthy (location sc) then
            Inl (Http (HTTPException 400 ''Please specify a location in your search query''))
          else
            (case generate_search_summary sc of
               Inl e \<Rightarrow> Inl (reraise ''Unexpected error: '' e)
             | Inr summ \<Rightarrow>
                 (let overview = generate_location_overview (groq (the (location sc))) in
                  case zillow sc of
                    Inl e \<Rightarrow> Inl (reraise ''Error searching properties: '' e)
                  | Inr properties \<Rightarrow>
                      if properties = [] then
                        Inr \<lparr> results = [], static_page_url = None,
                              search_summary = summ, location_overview = overview \<rparr>
                      else
                        Inr \<lparr> results = properties,
                              static_page_url = static_page properties query summ,
                              search_summary = summ, location_overview = overview \<rparr>)))"

text \<open>A listing for the examples below.\<close>

definition sample_listing :: property where
  "sample_listing =
     \<lparr> id' = ''7'', title = ''House in Boston'', price = 450000,
       location' = ''Boston, MA'', summary = ''House with 3 beds, 2 baths'',
       image_url = [], features = [''3 bedrooms''] \<rparr>"

section \<open>Facts about the helpers\<close>

lemma split_aux_nonempty: "w \<in> set (split_aux s cur) \<Longrightarrow> w \<noteq> []"
  by (induction s arbitrary: cur) (auto split: if_splits)

lemma split_nonempty: "split s = w # ws \<Longrightarrow> w \<noteq> []"
  using split_aux_nonempty [of w s "[]"] by (simp add: split_def)

lemma pattern_location_None:
  "\<forall>p \<in> set ps. re_search p q = None \<Longrightarrow> pattern_location ps q = None"
  by (induction ps) auto

lemma extract_price_None:
  "\<forall>pc \<in> set ps. re_search (fst pc) q = None \<Longrightarrow> extract_price ps q = None"
  by (induction ps) (auto simp: try_pattern_def)

text \<open>The loop over the price patterns stops at the first pattern whose round goes
  through.\<close>

lemma extract_price_first:
  "j < length ps \<Longrightarrow> try_pattern (ps ! j) q \<noteq> None \<Longrightarrow>
   \<exists>k\<le>j. extract_price ps q = try_pattern (ps ! k) q \<and> try_pattern (ps ! k) q \<noteq> None
        \<and> (\<forall>l<k. try_pattern (ps ! l) q = None)"
proof (induction ps arbitrary: j)
  case Nil
  then show ?case by simp
next
  case (Cons pc ps)
  show ?case
  proof (cases "try_pattern pc q")
    case (Some p)
    then have "extract_price (pc # ps) q = try_pattern ((pc # ps) ! 0) q
        \<and> try_pattern ((pc # ps) ! 0) q \<noteq> None
        \<and> (\<forall>l<0. try_pattern ((pc # ps) ! l) q = None)" by simp
    then show ?thesis by blast
  next
    case None
    with Cons.prems obtain j' where j: "j = Suc j'" by (cases j) auto
    with Cons.prems have "j' < length ps" "try_pattern (ps ! j') q \<noteq> None" by auto
    from Cons.IH [OF this] obtain k where k: "k \<le> j'"
      "extract_price ps q = try_pattern (ps ! k) q" "try_pattern (ps ! k) q \<noteq> None"
      "\<forall>l<k. try_pattern (ps ! l) q = None" by blast
    have "\<forall>l<Suc k. try_pattern ((pc # ps) ! l) q = None"
    proof (intro allI impI)
      fix l assume "l < Suc k"
      then show "try_pattern ((pc # ps) ! l) q = None"
        using None k(4) by (cases l) auto
    qed
    with k None j have "Suc k \<le> j \<and> extract_price (pc # ps) q = try_pattern ((pc # ps) ! Suc k) q
        \<and> try_pattern ((pc # ps) ! Suc k) q \<noteq> None
        \<and> (\<forall>l<Suc k. try_pattern ((pc # ps) ! l) q = None)" by simp
    then show ?thesis by blast
  qed
qed

lemma process_properties_append:
  "process_properties E (xs @ ys) loc = process_properties E xs loc @ process_properties E ys loc"
  by (induction xs) (auto split: sum.splits)

lemma record_price_absent:
  "map_of d ''price'' = None \<Longrightarrow> record_price d = Inr 0"
proof -
  assume a: "map_of d ''price'' = None"
  have z: "py_float ''0'' = Inr (Fin False 0 0)" by code_simp
  show ?thesis using a by (simp add: record_price_def get_def float_of_json_def z)
qed

lemma is_true_get:
  "is_true (get d key JNull) = (\<exists>v. map_of d key = Some v \<and> is_true v)"
  by (cases "map_of d key") (simp_all add: get_def is_true_def)

lemma get_present: "map_of d key = Some v \<Longrightarrow> get d key dflt = v"
  by (simp add: get_def)

lemma feature_spec:
  "feature E d key label =
     map (\<lambda>(k, l). py_str E (the (map_of d k)) @ l)
       (filter (\<lambda>(k, l). \<exists>v. map_of d k = Some v \<and> is_true v) [(key, label)])"
  by (auto simp: feature_def is_true_get get_present)

lemma process_property_features:
  "process_property E (JObj d) loc = Inr p \<Longrightarrow> features p = build_features E d"
  by (auto simp: process_property_def Let_def split: sum.splits)

lemma overview_of_failure:
  "r = Raised
   \<or> (\<exists>st body. r = Responded st body
        \<and> (st \<noteq> 200 \<or> body = None \<or> (\<exists>b e. body = Some b \<and> overview_content b = Inl e))) \<Longrightarrow>
   generate_location_overview r = JNull"
  by (auto simp: generate_location_overview_def)

subsection \<open>Whole numbers through \<open>str\<close>, \<open>float\<close> and \<open>int\<close>\<close>















section \<open>The query interpreter\<close>

text \<open>
  C1. The specification gives \<open>condos near Chicago under 500000\<close> the location
  \<open>Chicago, IL\<close>, the type \<open>CONDO\<close> and the ceiling 500000. The code gives the type and
  the ceiling, but the group of \<open>near ([A-Za-z\s,]+)\<close> runs on over the blank and the
  word \<open>under\<close>, so the location is \<open>Chicago under\<close> and the table of known cities is
  not hit.
\<close>

theorem interpret_chicago_location:
  "extract_search_params ''condos near Chicago under 500000'' =
     Inr \<lparr> location = Some ''Chicago under'', min_price = None,
           max_price = Some ''500000'', property_type = ''CONDO'' \<rparr>"
  by code_simp

text \<open>Without the words after the city, the same pattern does reach the table of known
  cities.\<close>

lemma interpret_chicago_alone:
  "extract_location ''condos near Chicago'' = Inr ''Chicago, IL''"
  by code_simp

text \<open>
  C3. The query \<open>homes under 2 million in Boston\<close> yields the location \<open>Boston, MA\<close>, the
  type \<open>SINGLE_FAMILY\<close> and the ceiling 2000000 (kept as its decimal text).
\<close>

theorem interpret_boston:
  "extract_search_params ''homes under 2 million in Boston'' =
     Inr \<lparr> location = Some ''Boston, MA'', min_price = None,
           max_price = Some ''2000000'', property_type = ''SINGLE_FAMILY'' \<rparr>"
  by code_simp

text \<open>
  C4. When none of the three location patterns matches the query and the query has no
  first word that starts with an upper-case letter, the interpreter fails with the
  missing-location error (status 400); no location is made up.
\<close>

theorem missing_location_error:
  assumes "\<forall>p \<in> set location_patterns. re_search p query = None"
    and "\<forall>c cs ws. split query = (c # cs) # ws \<longrightarrow> \<not> isupper c"
  shows "extract_search_params query = Inl missing_location"
proof -
  have none: "pattern_location location_patterns query = None"
    using assms(1) by (rule pattern_location_None)
  have "extract_location query = Inl missing_location"
  proof (cases "split query")
    case Nil
    with none show ?thesis by (simp add: extract_location_def)
  next
    case (Cons w ws)
    then have "w \<noteq> []" by (rule split_nonempty)
    then obtain c cs where w: "w = c # cs" by (cases w) auto
    with Cons assms(2) have "\<not> isupper c" by blast
    with none Cons w show ?thesis by (simp add: extract_location_def)
  qed
  then show ?thesis by (simp add: extract_search_params_def)
qed

lemma split_nothing_here: "split ''nothing here'' = [''nothing'', ''here'']"
  by code_simp

theorem missing_location_error_witness:
  "(\<exists>c cs ws. split ''nothing here'' = (c # cs) # ws \<and> \<not> isupper c)
   \<and> extract_search_params ''nothing here'' = Inl missing_location"
proof -
  have a: "\<forall>p \<in> set location_patterns. re_search p ''nothing here'' = None"
    by code_simp
  have n: "\<not> isupper CHR ''n''" by code_simp
  have b: "\<forall>c cs ws. split ''nothing here'' = (c # cs) # ws \<longrightarrow> \<not> isupper c"
    using n by (simp add: split_nothing_here)
  show ?thesis using missing_location_error [OF a b] n by (simp add: split_nothing_here)
qed

text \<open>
  C5. The criteria the interpreter returns never have a \<open>min_price\<close>, and they have no
  \<open>max_price\<close> when none of the six price patterns matches the lower-cased query.
\<close>

theorem min_price_absent:
  assumes "extract_search_params query = Inr sc"
  shows "min_price sc = None \<and>
         ((\<forall>pc \<in> set price_patterns. re_search (fst pc) (lower query) = None)
            \<longrightarrow> max_price sc = None)"
  using assms extract_price_None [of price_patterns "lower query"]
  by (auto simp: extract_search_params_def Let_def split: sum.splits)

lemma homes_in_boston:
  "extract_search_params ''homes in Boston'' =
     Inr \<lparr> location = Some ''Boston, MA'', min_price = None, max_price = None,
           property_type = ''SINGLE_FAMILY'' \<rparr>"
  by code_simp

theorem min_price_absent_witness:
  "map (\<lambda>pc. re_search (fst pc) (lower ''homes in Boston'')) price_patterns
     = [None, None, None, None, None, None]
   \<and> (\<exists>sc. extract_search_params ''homes in Boston'' = Inr sc
          \<and> min_price sc = None \<and> max_price sc = None)"
proof -
  have m: "map (\<lambda>pc. re_search (fst pc) (lower ''homes in Boston'')) price_patterns
     = [None, None, None, None, None, None]"
    by code_simp
  have a: "\<forall>pc \<in> set price_patterns. re_search (fst pc) (lower ''homes in Boston'') = None"
    by code_simp
  from min_price_absent [OF homes_in_boston] a m show ?thesis
    using homes_in_boston by blast
qed

text \<open>
  C6. The patterns at the positions 0, 2 and 4 of \<open>price_patterns\<close> are the three with
  \<open>million\<close>, those at 1, 3 and 5 the three with a bare number. When one of each kind
  has a match that converts, \<open>max_price\<close> is the result of a pattern that stands no
  later than either of them, and no pattern before that one gave a result: the first
  pattern of the list that goes through decides.
\<close>

theorem price_pattern_precedence:
  assumes "extract_search_params query = Inr sc"
    and "i \<in> {0, 2, 4}" and "j \<in> {1, 3, 5}"
    and "try_pattern (price_patterns ! i) (lower query) = Some a"
    and "try_pattern (price_patterns ! j) (lower query) = Some b"
  shows "\<exists>k \<le> min i j.
           max_price sc = try_pattern (price_patterns ! k) (lower query)
           \<and> max_price sc \<noteq> None
           \<and> (\<forall>l<k. try_pattern (price_patterns ! l) (lower query) = None)"
proof -
  have len: "length price_patterns = 6" by (simp add: price_patterns_def)
  have mp: "max_price sc = extract_price price_patterns (lower query)"
    using assms(1) by (auto simp: extract_search_params_def Let_def split: sum.splits)
  let ?m = "min i j"
  have "?m < length price_patterns" using assms(2,3) len by auto
  moreover have "try_pattern (price_patterns ! ?m) (lower query) \<noteq> None"
    using assms(4,5) by (auto simp: min_def)
  ultimately show ?thesis
    using extract_price_first [of ?m price_patterns "lower query"] mp by auto
qed

lemma under_500_or_2_million:
  "extract_search_params ''under 500 or 2 million in Boston'' =
     Inr \<lparr> location = Some ''Boston, MA'', min_price = None, max_price = Some ''500'',
           property_type = ''SINGLE_FAMILY'' \<rparr>"
  by code_simp

theorem price_pattern_precedence_witness:
  "try_pattern (price_patterns ! 4) (lower ''under 500 or 2 million in Boston'') = Some ''2000000''
   \<and> try_pattern (price_patterns ! 1) (lower ''under 500 or 2 million in Boston'') = Some ''500''
   \<and> (\<exists>k \<le> 1. Some ''500'' = try_pattern (price_patterns ! k)
                      (lower ''under 500 or 2 million in Boston''))"
proof -
  have a: "try_pattern (price_patterns ! 4) (lower ''under 500 or 2 million in Boston'')
      = Some ''2000000''" by code_simp
  have b: "try_pattern (price_patterns ! 1) (lower ''under 500 or 2 million in Boston'')
      = Some ''500''" by code_simp
  from price_pattern_precedence [OF under_500_or_2_million _ _ a b]
  have "\<exists>k \<le> 1. Some ''500'' = try_pattern (price_patterns ! k)
                      (lower ''under 500 or 2 million in Boston'')"
    by auto
  with a b show ?thesis by blast
qed

text \<open>
  C10. When no location pattern matches and the first word of the query starts with an
  upper-case letter, the location is that word as it stands; no state is added, also
  for a word of the table of known cities.
\<close>

theorem capitalized_first_word_location:
  assumes "\<forall>p \<in> set location_patterns. re_search p query = None"
    and "split query = (c # cs) # ws"
    and "isupper c"
  shows "extract_location query = Inr (c # cs)
         \<and> (\<exists>sc. extract_search_params query = Inr sc \<and> location sc = Some (c # cs))"
  using assms pattern_location_None [OF assms(1)]
  by (simp add: extract_location_def extract_search_params_def Let_def)

theorem capitalized_first_word_location_witness:
  "extract_location ''Boston homes'' = Inr ''Boston''
   \<and> lower ''Boston'' = ''boston''
   \<and> add_state ''Boston'' = ''Boston, MA''"
proof -
  have a: "\<forall>p \<in> set location_patterns. re_search p ''Boston homes'' = None"
    by code_simp
  have b: "split ''Boston homes'' = (CHR ''B'' # ''oston'') # [''homes'']"
    by code_simp
  have c: "isupper CHR ''B''" by code_simp
  have d: "add_state ''Boston'' = ''Boston, MA''" "lower ''Boston'' = ''boston''"
    by code_simp+
  show ?thesis using capitalized_first_word_location [OF a b c] d by simp
qed

section \<open>The summary\<close>



section \<open>The normalizer\<close>

text \<open>
  C2. The specification has a record without a \<open>price\<close> field dropped. In the code the
  default of \<open>prop.get("price", "0")\<close> stands in for the missing field: the record is
  normalized exactly as the same record with the price \<open>"0"\<close>, so where it yields a
  listing the price of the listing is 0; and whatever happens to it, the records before
  and after it are processed as they would be without it.
\<close>

theorem missing_price_read_as_zero:
  assumes "map_of d ''price'' = None"
  shows "process_properties E (before @ JObj d # rest) loc =
           process_properties E before loc
           @ (case process_property E (JObj d) loc of Inl e \<Rightarrow> [] | Inr p \<Rightarrow> [p])
           @ process_properties E rest loc
         \<and> process_property E (JObj d) loc
             = process_property E (JObj ((''price'', JStr ''0'') # d)) loc
         \<and> (\<forall>p. process_property E (JObj d) loc = Inr p \<longrightarrow> price p = 0)"
proof (intro conjI allI impI)
  show "process_properties E (before @ JObj d # rest) loc =
           process_properties E before loc
           @ (case process_property E (JObj d) loc of Inl e \<Rightarrow> [] | Inr p \<Rightarrow> [p])
           @ process_properties E rest loc"
    by (simp add: process_properties_append split: sum.splits)
next
  have rp: "record_price ((''price'', JStr ''0'') # d) = record_price d"
    using assms by (simp add: record_price_def get_def)
  have g: "\<And>key dflt. key \<noteq> ''price'' \<Longrightarrow>
      get ((''price'', JStr ''0'') # d) key dflt = get d key dflt"
    by (simp add: get_def)
  have bf: "build_features E ((''price'', JStr ''0'') # d) = build_features E d"
    by (simp add: build_features_def feature_def g)
  have lp: "location_parts ((''price'', JStr ''0'') # d) = location_parts d"
    by (simp add: location_parts_def g split: sum.splits)
  show "process_property E (JObj d) loc
             = process_property E (JObj ((''price'', JStr ''0'') # d)) loc"
    by (simp add: process_property_def rp bf lp g Let_def split: sum.splits)
next
  fix p assume "process_property E (JObj d) loc = Inr p"
  then show "price p = 0"
    using record_price_absent [OF assms]
    by (auto simp: process_property_def Let_def split: sum.splits)
qed

lemma eval_no_price:
  "process_property E (JObj [(''zpid'', JInt 7), (''city'', JStr ''Boston'')]) ''Boston, MA'' =
     Inr \<lparr> id' = ''7'', title = ''Property in Boston'', price = 0, location' = ''Boston'',
           summary = ''Property with N/A beds, N/A baths'', image_url = [], features = [] \<rparr>"
proof -
  have p: "record_price [(''zpid'', JInt 7), (''city'', JStr ''Boston'')] = Inr 0"
    by (rule record_price_absent) simp
  have s7: "str_int 7 = ''7''" by code_simp
  have st: "strip ''Boston'' = ''Boston''" "strip [] = []" by code_simp+
  show ?thesis
    by (simp add: process_property_def p build_features_def feature_def get_def is_true_def
        location_parts_def strip_json_def validate_str_def py_str_def s7 st)
qed

lemma eval_null_price:
  "process_property E (JObj [(''price'', JNull)]) loc = Inl TypeError"
  by (simp add: process_property_def record_price_def get_def float_of_json_def)

lemma eval_priced:
  "process_property E (JObj [(''price'', JStr ''$450,000'')]) ''Boston, MA'' =
     Inr \<lparr> id' = [], title = ''Property in Boston, MA'', price = 450000, location' = [],
           summary = ''Property with N/A beds, N/A baths'', image_url = [], features = [] \<rparr>"
proof -
  have p: "record_price [(''price'', JStr ''$450,000'')] = Inr 450000"
    by code_simp
  have st: "strip [] = []" by code_simp
  show ?thesis
    by (simp add: process_property_def p build_features_def feature_def get_def is_true_def
        location_parts_def strip_json_def validate_str_def py_str_def st)
qed

theorem missing_price_read_as_zero_witness:
  "map_of [(''zpid'', JInt 7), (''city'', JStr ''Boston'')] ''price'' = None
   \<and> (\<forall>E. process_properties E
          [JObj [(''price'', JNull)],
           JObj [(''zpid'', JInt 7), (''city'', JStr ''Boston'')],
           JObj [(''price'', JStr ''$450,000'')]] ''Boston, MA'' =
        [\<lparr> id' = ''7'', title = ''Property in Boston'', price = 0, location' = ''Boston'',
           summary = ''Property with N/A beds, N/A baths'', image_url = [], features = [] \<rparr>,
         \<lparr> id' = [], title = ''Property in Boston, MA'', price = 450000, location' = [],
           summary = ''Property with N/A beds, N/A baths'', image_url = [], features = [] \<rparr>])"
proof (intro conjI allI)
  show a: "map_of [(''zpid'', JInt 7), (''city'', JStr ''Boston'')] ''price'' = None"
    by simp
  fix E
  let ?d = "[(''zpid'', JInt 7), (''city'', JStr ''Boston'')]"
  have "process_properties E ([JObj [(''price'', JNull)]] @ JObj ?d
          # [JObj [(''price'', JStr ''$450,000'')]]) ''Boston, MA'' =
        process_properties E [JObj [(''price'', JNull)]] ''Boston, MA''
        @ (case process_property E (JObj ?d) ''Boston, MA'' of Inl e \<Rightarrow> [] | Inr p \<Rightarrow> [p])
        @ process_properties E [JObj [(''price'', JStr ''$450,000'')]] ''Boston, MA''"
    using missing_price_read_as_zero [OF a, of E "[JObj [(''price'', JNull)]]"
      "[JObj [(''price'', JStr ''$450,000'')]]" "''Boston, MA''"] by (rule conjunct1)
  then show "process_properties E
          [JObj [(''price'', JNull)],
           JObj [(''zpid'', JInt 7), (''city'', JStr ''Boston'')],
           JObj [(''price'', JStr ''$450,000'')]] ''Boston, MA'' =
        [\<lparr> id' = ''7'', title = ''Property in Boston'', price = 0, location' = ''Boston'',
           summary = ''Property with N/A beds, N/A baths'', image_url = [], features = [] \<rparr>,
         \<lparr> id' = [], title = ''Property in Boston, MA'', price = 450000, location' = [],
           summary = ''Property with N/A beds, N/A baths'', image_url = [], features = [] \<rparr>]"
    by (simp add: eval_no_price eval_null_price eval_priced)
qed

theorem missing_price_record_kept:
  "\<forall>E. process_properties E
          [JObj [(''zpid'', JInt 7), (''city'', JStr ''Boston'')]] ''Boston, MA'' =
        [\<lparr> id' = ''7'', title = ''Property in Boston'', price = 0, location' = ''Boston'',
           summary = ''Property with N/A beds, N/A baths'', image_url = [], features = [] \<rparr>]"
  by (simp add: eval_no_price)

text \<open>
  C8. The specification lets every field that is present add its entry. The code tests
  the value, not the presence: in the order bedrooms, bathrooms, living area, a field
  whose value is true for Python (not \<open>None\<close>, zero, empty) adds exactly one entry, the
  text of the value followed by \<open>bedrooms\<close>, \<open>bathrooms\<close> or \<open>sqft\<close>; a field that is
  absent or holds such a false value adds none.
\<close>

theorem features_of_truthy_fields:
  assumes "process_property E (JObj d) loc = Inr p"
  shows "features p =
           map (\<lambda>(key, label). py_str E (the (map_of d key)) @ label)
             (filter (\<lambda>(key, label). \<exists>v. map_of d key = Some v \<and> is_true v)
                [(''bedrooms'', '' bedrooms''), (''bathrooms'', '' bathrooms''),
                 (''livingArea'', '' sqft'')])"
proof -
  have "features p = feature E d ''bedrooms'' '' bedrooms''
     @ feature E d ''bathrooms'' '' bathrooms''
     @ feature E d ''livingArea'' '' sqft''"
    using process_property_features [OF assms] by (simp add: build_features_def)
  also have "\<dots> = map (\<lambda>(key, label). py_str E (the (map_of d key)) @ label)
             (filter (\<lambda>(key, label). \<exists>v. map_of d key = Some v \<and> is_true v)
                ([(''bedrooms'', '' bedrooms'')] @ [(''bathrooms'', '' bathrooms'')] @
                 [(''livingArea'', '' sqft'')]))"
    unfolding filter_append map_append feature_spec ..
  finally show ?thesis by simp
qed

lemma eval_three_bedrooms:
  "process_property E
     (JObj [(''price'', JStr ''$450,000''), (''bedrooms'', JInt 3), (''livingArea'', JInt 1200)])
     ''Austin'' =
     Inr \<lparr> id' = [], title = ''Property in Austin'', price = 450000, location' = [],
           summary = ''Property with 3 beds, N/A baths'', image_url = [],
           features = [''3 bedrooms'', ''1200 sqft''] \<rparr>"
proof -
  have p: "record_price [(''price'', JStr ''$450,000''), (''bedrooms'', JInt 3),
      (''livingArea'', JInt 1200)] = Inr 450000"
    by code_simp
  have s: "str_int 3 = ''3''" "str_int 1200 = ''1200''" by code_simp+
  have st: "strip [] = []" by code_simp
  show ?thesis
    by (simp add: process_property_def p build_features_def feature_def get_def is_true_def
        location_parts_def strip_json_def validate_str_def py_str_def s st)
qed

lemma three_bedrooms_normalizes:
  "\<exists>p. process_property E
        (JObj [(''price'', JStr ''$450,000''), (''bedrooms'', JInt 3), (''livingArea'', JInt 1200)])
        ''Austin'' = Inr p"
  by (simp add: eval_three_bedrooms)

theorem features_of_truthy_fields_witness:
  "\<forall>E. \<exists>p. process_property E
        (JObj [(''price'', JStr ''$450,000''), (''bedrooms'', JInt 3), (''livingArea'', JInt 1200)])
        ''Austin'' = Inr p
      \<and> features p = [''3 bedrooms'', ''1200 sqft'']"
proof
  fix E
  let ?d = "[(''price'', JStr ''$450,000''), (''bedrooms'', JInt 3), (''livingArea'', JInt 1200)]"
  obtain p where p: "process_property E (JObj ?d) ''Austin'' = Inr p"
    using three_bedrooms_normalizes by blast
  have s: "str_int 3 = ''3''" "str_int 1200 = ''1200''" by code_simp+
  from features_of_truthy_fields [OF p]
  have "features p = [''3 bedrooms'', ''1200 sqft'']"
    by (simp add: is_true_def py_str_def s)
  with p show "\<exists>p. process_property E (JObj ?d) ''Austin'' = Inr p
      \<and> features p = [''3 bedrooms'', ''1200 sqft'']"
    by blast
qed

lemma eval_zero_bedrooms:
  "process_property E
     (JObj [(''price'', JInt 250000), (''bedrooms'', JInt 0), (''bathrooms'', JInt 1)]) ''Austin'' =
     Inr \<lparr> id' = [], title = ''Property in Austin'', price = 250000, location' = [],
           summary = ''Property with 0 beds, 1 baths'', image_url = [],
           features = [''1 bathrooms''] \<rparr>"
proof -
  have p: "record_price [(''price'', JInt 250000), (''bedrooms'', JInt 0), (''bathrooms'', JInt 1)]
      = Inr 250000"
    by code_simp
  have s: "str_int 0 = ''0''" "str_int 1 = ''1''" by code_simp+
  have st: "strip [] = []" by code_simp
  show ?thesis
    by (simp add: process_property_def p build_features_def feature_def get_def is_true_def
        location_parts_def strip_json_def validate_str_def py_str_def s st)
qed

theorem zero_bedrooms_no_feature:
  "\<forall>E. \<exists>p. process_property E
        (JObj [(''price'', JInt 250000), (''bedrooms'', JInt 0), (''bathrooms'', JInt 1)])
        ''Austin'' = Inr p
      \<and> map_of [(''price'', JInt 250000), (''bedrooms'', JInt 0), (''bathrooms'', JInt 1)]
           ''bedrooms'' = Some (JInt 0)
      \<and> features p = [''1 bathrooms'']"
  by (simp add: eval_zero_bedrooms)

section \<open>The enrichment\<close>

text \<open>
  C9. When the request to the text generator raises, answers with a status other
  than 200, or answers 200 with a body that cannot be read (reading it raises inside
  the function), the overview is \<open>None\<close>, and the outcome of the search request is the one it
  would have with any other answer of the generator, but for the overview field, which
  is \<open>None\<close>: a failure of the enrichment is never a failure of the request. Where the
  interpreter, the summary and the provider go through, the request returns its
  response.
\<close>

theorem enrichment_failure_not_propagated:
  assumes "\<forall>loc. groq loc = Raised
      \<or> (\<exists>st body. groq loc = Responded st body
           \<and> (st \<noteq> 200 \<or> body = None
                \<or> (\<exists>b e. body = Some b \<and> overview_content b = Inl e)))"
  shows "generate_location_overview (groq loc) = JNull
         \<and> search_properties groq zillow static_page query =
             map_sum (\<lambda>e. e) (\<lambda>r. r\<lparr>location_overview := JNull\<rparr>)
               (search_properties groq' zillow static_page query)
         \<and> (extract_search_params query = Inr sc \<and> truthy (location sc)
              \<and> generate_search_summary sc = Inr summ \<and> zillow sc = Inr ps
            \<longrightarrow> (\<exists>r. search_properties groq zillow static_page query = Inr r
                   \<and> results r = ps \<and> search_summary r = summ
                   \<and> location_overview r = JNull))"
proof (intro conjI impI)
  show "generate_location_overview (groq loc) = JNull"
    using assms overview_of_failure by blast
  have b: "\<And>l. generate_location_overview (groq l) = JNull"
    using assms overview_of_failure by blast
  show "search_properties groq zillow static_page query =
             map_sum (\<lambda>e. e) (\<lambda>r. r\<lparr>location_overview := JNull\<rparr>)
               (search_properties groq' zillow static_page query)"
    by (simp add: search_properties_def b Let_def split: sum.splits)
  assume "extract_search_params query = Inr sc \<and> truthy (location sc)
              \<and> generate_search_summary sc = Inr summ \<and> zillow sc = Inr ps"
  then show "\<exists>r. search_properties groq zillow static_page query = Inr r
                   \<and> results r = ps \<and> search_summary r = summ
                   \<and> location_overview r = JNull"
    by (simp add: search_properties_def b Let_def)
qed

theorem enrichment_failure_not_propagated_witness:
  "search_properties (\<lambda>loc. Responded 503 None) (\<lambda>sc. Inr [sample_listing])
       (\<lambda>ps q s. Some ''/static/page.html'') ''homes in Boston''
     = Inr \<lparr> results = [sample_listing], static_page_url = Some ''/static/page.html'',
             search_summary = ''Looking for single-family homes in Boston, MA'',
             location_overview = JNull \<rparr>"
proof -
  let ?ok = "\<lambda>loc. Responded 200 (Some (JObj [(''choices'',
      JList [JObj [(''message'', JObj [(''content'', JStr ''A city.'')])]])]))"
  have f: "\<forall>loc. (\<lambda>loc. Responded 503 None) loc = Raised
      \<or> (\<exists>st body. (\<lambda>loc. Responded 503 None) loc = Responded st body
           \<and> (st \<noteq> 200 \<or> body = None
                \<or> (\<exists>b e. body = Some b \<and> overview_content b = Inl e)))"
    by simp
  have ok: "search_properties ?ok (\<lambda>sc. Inr [sample_listing])
       (\<lambda>ps q s. Some ''/static/page.html'') ''homes in Boston''
     = Inr \<lparr> results = [sample_listing], static_page_url = Some ''/static/page.html'',
             search_summary = ''Looking for single-family homes in Boston, MA'',
             location_overview = JStr ''A city.'' \<rparr>"
    by code_simp
  from enrichment_failure_not_propagated [OF f, where groq' = ?ok
      and zillow = "\<lambda>sc. Inr [sample_listing]"
      and static_page = "\<lambda>ps q s. Some ''/static/page.html''" and query = "''homes in Boston''"]
  show ?thesis by (simp add: ok)
qed

end
